theory Spec2Isabelle
  imports Main
begin

section \<open>Data model of lib/parse.js\<close>

text \<open>
  The objects that \<open>parseJSDoc\<close> reads and builds are JavaScript objects. A key
  that may be missing (or hold \<open>null\<close>/\<open>undefined\<close>) is an \<open>option\<close>; the
  opaque values (type expressions, markdown trees, locations, code contexts) are type
  variables.
\<close>

text \<open>
  A tag as \<open>doctrine.parse\<close> returns it. \<open>tag_errors\<close> is \<open>None\<close> when the tag has
  no \<open>errors\<close> key; an array, even an empty one, is \<open>Some\<close> (arrays are truthy).
\<close>

record 'ty tag =
  tag_title :: string
  tag_name :: "string option"
  tag_type :: "'ty option"
  tag_description :: "string option"
  tag_lineNumber :: int
  tag_errors :: "string list option"

text \<open>The object returned by \<open>doctrine.parse\<close>: \<open>{description, tags}\<close>.\<close>

record 'ty doctrine_result =
  doc_description :: "string option"
  doc_tags :: "'ty tag list"

text \<open>An element of \<open>result.errors\<close>: \<open>{message, commentLineNumber?}\<close>.\<close>

record ErrorEntry =
  message :: string
  commentLineNumber :: "int option"

text \<open>
  An element of \<open>result.properties\<close>. The keys \<open>name\<close> and \<open>lineNumber\<close> are
  always written (their values are whatever the tag holds); \<open>description\<close> and
  \<open>type\<close> are keys only when the flattener writes them.
\<close>

record ('md, 'ty) Property =
  property_name :: "string option"
  property_lineNumber :: int
  property_description :: "'md option"
  property_type :: "'ty option"

text \<open>
  \<open>result.description\<close> holds the parser's string until \<open>parseMarkdown\<close> replaces it
  by a markdown tree.
\<close>

datatype 'md description_value = Unrendered string | Rendered 'md

text \<open>
  The object \<open>parseJSDoc\<close> returns: the parser's own result object, with the keys the
  function adds. \<open>name\<close> is \<open>None\<close> when the key is absent and \<open>Some v\<close> when
  it was assigned the value \<open>v\<close> of \<open>tag.description\<close> (itself possibly \<open>null\<close>).
\<close>

record ('md, 'ty, 'loc, 'ctx) Comment =
  description :: "'md description_value option"
  tags :: "'ty tag list"
  loc :: 'loc
  code_context :: 'ctx
  errors :: "ErrorEntry list"
  name :: "string option option"
  properties :: "('md, 'ty) Property list option"

datatype js_error = TypeError

section \<open>The dispatch table \<open>flatteners\<close>\<close>

text \<open>
  \<open>flatteners\<close> is an object literal with the own keys \<open>bleno\<close> and \<open>property\<close>.
  The driver reads it with \<open>flatteners[tag.title]\<close>, a property lookup that also
  finds what the literal inherits from \<open>Object.prototype\<close>.
\<close>

datatype flattener = flatten_bleno | flatten_property | Object_prototype string

definition Object_prototype_keys :: "string list" where
  "Object_prototype_keys =
     [''constructor'', ''hasOwnProperty'', ''isPrototypeOf'', ''propertyIsEnumerable'',
      ''toLocaleString'', ''toString'', ''valueOf'',
      ''__defineGetter__'', ''__defineSetter__'', ''__lookupGetter__'',
      ''__lookupSetter__'', ''__proto__'']"

definition flatteners :: "string \<Rightarrow> flattener option" where
  "flatteners key =
     (if key = ''bleno'' then Some flatten_bleno
      else if key = ''property'' then Some flatten_property
      else if key \<in> set Object_prototype_keys then Some (Object_prototype key)
      else None)"

text \<open>\<open>if (tag.description)\<close>: a string is truthy unless it is empty.\<close>

definition truthy :: "string option \<Rightarrow> bool" where
  "truthy s = (case s of None \<Rightarrow> False | Some v \<Rightarrow> v \<noteq> [])"

definition bleno ::
  "('md, 'ty, 'loc, 'ctx) Comment \<Rightarrow> 'ty tag \<Rightarrow> ('md, 'ty, 'loc, 'ctx) Comment" where
  "bleno result tag = result\<lparr>name := Some (tag_description tag)\<rparr>"

definition property ::
  "(string \<Rightarrow> 'md) \<Rightarrow> ('md, 'ty, 'loc, 'ctx) Comment \<Rightarrow> 'ty tag \<Rightarrow>
   ('md, 'ty, 'loc, 'ctx) Comment" where
  "property parseMarkdown result tag =
     (let props = (case properties result of None \<Rightarrow> [] | Some ps \<Rightarrow> ps);
          p0 = \<lparr>property_name = tag_name tag,
                property_lineNumber = tag_lineNumber tag,
                property_description = None,
                property_type = None\<rparr>;
          p1 = (case tag_description tag of
                  None \<Rightarrow> p0
                | Some d \<Rightarrow>
                    if d \<noteq> [] then p0\<lparr>property_description := Some (parseMarkdown d)\<rparr>
                    else p0);
          p2 = (case tag_type tag of
                  None \<Rightarrow> p1
                | Some ty \<Rightarrow> p1\<lparr>property_type := Some ty\<rparr>)
      in result\<lparr>properties := Some (props @ [p2])\<rparr>)"

text \<open>
  Calling a member inherited from \<open>Object.prototype\<close> with the arguments
  \<open>(result, tag, tag.title)\<close>. The functions \<open>constructor\<close>, \<open>hasOwnProperty\<close>,
  \<open>isPrototypeOf\<close>, \<open>propertyIsEnumerable\<close>, \<open>toLocaleString\<close>, \<open>toString\<close>,
  \<open>valueOf\<close>, \<open>__lookupGetter__\<close> and \<open>__lookupSetter__\<close> return without
  touching \<open>result\<close>. \<open>__proto__\<close> is an object, not a function, and
  \<open>__defineGetter__\<close>/\<open>__defineSetter__\<close> reject a second argument that is not
  callable: these three raise a \<open>TypeError\<close>.
\<close>

definition Object_prototype_call ::
  "string \<Rightarrow> ('md, 'ty, 'loc, 'ctx) Comment \<Rightarrow> js_error + ('md, 'ty, 'loc, 'ctx) Comment" where
  "Object_prototype_call key result =
     (if key \<in> set [''__proto__'', ''__defineGetter__'', ''__defineSetter__'']
      then Inl TypeError else Inr result)"

fun call_flattener ::
  "(string \<Rightarrow> 'md) \<Rightarrow> flattener \<Rightarrow> ('md, 'ty, 'loc, 'ctx) Comment \<Rightarrow> 'ty tag \<Rightarrow>
   js_error + ('md, 'ty, 'loc, 'ctx) Comment" where
  "call_flattener parseMarkdown flatten_bleno result tag = Inr (bleno result tag)"
| "call_flattener parseMarkdown flatten_property result tag =
     Inr (property parseMarkdown result tag)"
| "call_flattener parseMarkdown (Object_prototype key) result tag =
     Object_prototype_call key result"

section \<open>The driver \<open>parseJSDoc\<close>\<close>

text \<open>\<open>_.findIndex\<close>: the index of the first element the predicate accepts, else -1.\<close>

fun findIndex :: "('a \<Rightarrow> bool) \<Rightarrow> 'a list \<Rightarrow> int" where
  "findIndex p [] = - 1"
| "findIndex p (x # xs) =
     (if p x then 0
      else (let i = findIndex p xs in if i = - 1 then - 1 else i + 1))"

text \<open>The loop over \<open>tag.errors\<close>: each message is pushed as \<open>{message: m}\<close>.\<close>

fun push_messages ::
  "('md, 'ty, 'loc, 'ctx) Comment \<Rightarrow> string list \<Rightarrow> ('md, 'ty, 'loc, 'ctx) Comment" where
  "push_messages result [] = result"
| "push_messages result (m # ms) =
     push_messages
       (result\<lparr>errors := errors result @ [\<lparr>message = m, commentLineNumber = None\<rparr>]\<rparr>) ms"

text \<open>The callback of \<open>result.tags.forEach\<close>.\<close>

definition each_tag ::
  "(string \<Rightarrow> 'md) \<Rightarrow> ('md, 'ty, 'loc, 'ctx) Comment \<Rightarrow> 'ty tag \<Rightarrow>
   js_error + ('md, 'ty, 'loc, 'ctx) Comment" where
  "each_tag parseMarkdown result tag =
     (case tag_errors tag of
        Some es \<Rightarrow> Inr (push_messages result es)
      | None \<Rightarrow>
          (case flatteners (tag_title tag) of
             Some f \<Rightarrow> call_flattener parseMarkdown f result tag
           | None \<Rightarrow>
               Inr (result\<lparr>errors := errors result @
                      [\<lparr>message = ''unknown tag @'' @ tag_title tag,
                        commentLineNumber = Some (tag_lineNumber tag)\<rparr>]\<rparr>)))"

text \<open>\<open>forEach\<close>: the tags in order; an exception of the callback ends the walk.\<close>

fun forEach ::
  "(string \<Rightarrow> 'md) \<Rightarrow> 'ty tag list \<Rightarrow> ('md, 'ty, 'loc, 'ctx) Comment \<Rightarrow>
   js_error + ('md, 'ty, 'loc, 'ctx) Comment" where
  "forEach parseMarkdown [] result = Inr result"
| "forEach parseMarkdown (t # ts) result =
     (case each_tag parseMarkdown result t of
        Inl e \<Rightarrow> Inl e
      | Inr result' \<Rightarrow> forEach parseMarkdown ts result')"

text \<open>
  \<open>parseJSDoc\<close>. The two collaborators, \<open>doctrine.parse\<close> (with the four options
  fixed) and \<open>parseMarkdown\<close>, are parameters. \<open>Inr None\<close> is the returned
  \<open>null\<close>, \<open>Inr (Some r)\<close> the returned object, \<open>Inl e\<close> a raised exception.
\<close>

definition parseJSDoc ::
  "(string \<Rightarrow> 'ty doctrine_result) \<Rightarrow> (string \<Rightarrow> 'md) \<Rightarrow> string \<Rightarrow> 'loc \<Rightarrow> 'ctx \<Rightarrow>
   js_error + ('md, 'ty, 'loc, 'ctx) Comment option" where
  "parseJSDoc doctrine_parse parseMarkdown comment l c =
     (let result = doctrine_parse comment in
      if findIndex (\<lambda>item. tag_title item = ''bleno'') (doc_tags result) = - 1
      then Inr None
      else
        (let result1 =
               \<lparr>description =
                  (case doc_description result of
                     None \<Rightarrow> None
                   | Some d \<Rightarrow>
                       if d \<noteq> [] then Some (Rendered (parseMarkdown d))
                       else Some (Unrendered d)),
                tags = doc_tags result,
                loc = l,
                code_context = c,
                errors = [],
                name = None,
                properties = None\<rparr>
         in (case forEach parseMarkdown (doc_tags result) result1 of
               Inl e \<Rightarrow> Inl e
             | Inr result2 \<Rightarrow> Inr (Some result2))))"

section \<open>What one tag contributes\<close>

text \<open>
  The entries a tag adds to \<open>result.errors\<close>: its parser messages when it has an
  \<open>errors\<close> array, the unknown-tag entry when the lookup in \<open>flatteners\<close> finds
  nothing, and nothing when the lookup finds a member.
\<close>

definition error_entries :: "'ty tag \<Rightarrow> ErrorEntry list" where
  "error_entries t =
     (case tag_errors t of
        Some es \<Rightarrow> map (\<lambda>m. \<lparr>message = m, commentLineNumber = None\<rparr>) es
      | None \<Rightarrow>
          (case flatteners (tag_title t) of
             Some f \<Rightarrow> []
           | None \<Rightarrow> [\<lparr>message = ''unknown tag @'' @ tag_title t,
                        commentLineNumber = Some (tag_lineNumber t)\<rparr>]))"

text \<open>A tag without parser errors whose title is \<open>key\<close>: the own flattener runs on it.\<close>

definition flattened :: "string \<Rightarrow> 'ty tag \<Rightarrow> bool" where
  "flattened key t = (tag_errors t = None \<and> tag_title t = key)"

text \<open>The entry the \<open>property\<close> flattener builds from a tag.\<close>

definition Property_of :: "(string \<Rightarrow> 'md) \<Rightarrow> 'ty tag \<Rightarrow> ('md, 'ty) Property" where
  "Property_of parseMarkdown t =
     \<lparr>property_name = tag_name t,
      property_lineNumber = tag_lineNumber t,
      property_description =
        (if truthy (tag_description t) then map_option parseMarkdown (tag_description t)
         else None),
      property_type = tag_type t\<rparr>"

text \<open>
  A tag at which the callback raises: no parser errors, and a title that names a
  member of \<open>Object.prototype\<close> that cannot be called this way.
\<close>

definition raises :: "'ty tag \<Rightarrow> bool" where
  "raises t =
     (tag_errors t = None \<and>
      tag_title t \<in> set [''__proto__'', ''__defineGetter__'', ''__defineSetter__''])"

text \<open>The object as it stands when the walk over the tags starts.\<close>

definition decorated ::
  "(string \<Rightarrow> 'md) \<Rightarrow> 'ty doctrine_result \<Rightarrow> 'loc \<Rightarrow> 'ctx \<Rightarrow> ('md, 'ty, 'loc, 'ctx) Comment" where
  "decorated parseMarkdown result l c =
     \<lparr>description =
        (case doc_description result of
           None \<Rightarrow> None
         | Some d \<Rightarrow>
             if d \<noteq> [] then Some (Rendered (parseMarkdown d)) else Some (Unrendered d)),
      tags = doc_tags result,
      loc = l,
      code_context = c,
      errors = [],
      name = None,
      properties = None\<rparr>"

text \<open>
  What the tag parser delivers, as far as the claims below need it. It has no rule for
  the title \<open>bleno\<close> and attaches its messages only under the rules of the titles it
  knows, so a tag titled \<open>bleno\<close> carries none; and it reads a title as a run of
  ASCII letters and digits, so no title is \<open>__proto__\<close>, \<open>__defineGetter__\<close> or
  \<open>__defineSetter__\<close>.
\<close>

definition delivered :: "'ty tag \<Rightarrow> bool" where
  "delivered t =
     ((tag_title t = ''bleno'' \<longrightarrow> tag_errors t = None) \<and>
      tag_title t \<notin> set [''__proto__'', ''__defineGetter__'', ''__defineSetter__''])"

section \<open>The result object in the heap\<close>

text \<open>
  \<open>parseJSDoc\<close> builds no object of its own: \<open>doctrine.parse\<close> allocates the
  result object, \<open>parseJSDoc\<close> writes to that object in place and returns a reference
  to it. Here the heap is the list of the objects allocated so far and a reference is an
  index into it. An object is the parser's result as allocated, or the same object after
  lines 221 to 227 have written \<open>loc\<close>, \<open>context\<close>, \<open>errors\<close> and the
  rendered description.
\<close>

datatype ('md, 'ty, 'loc, 'ctx) heap_object =
    Parsed "'ty doctrine_result"
  | Decorated "('md, 'ty, 'loc, 'ctx) Comment"

definition heap_alloc :: "'o \<Rightarrow> 'o list \<Rightarrow> nat \<times> 'o list" where
  "heap_alloc obj h = (length h, h @ [obj])"

definition heap_read :: "'o list \<Rightarrow> nat \<Rightarrow> 'o option" where
  "heap_read h a = (if a < length h then Some (h ! a) else None)"

definition heap_write :: "'o list \<Rightarrow> nat \<Rightarrow> 'o \<Rightarrow> 'o list" where
  "heap_write h a obj = h[a := obj]"

text \<open>
  The walk over the tags, on the heap: the callback reads the object behind the
  reference \<open>result\<close>, and what it assigns is written back to that object. When the
  callback raises, the walk ends and the object keeps what was written so far. The
  reference always holds the decorated object (the last case does not arise).
\<close>

fun forEach_heap ::
  "(string \<Rightarrow> 'md) \<Rightarrow> 'ty tag list \<Rightarrow> nat \<Rightarrow> ('md, 'ty, 'loc, 'ctx) heap_object list \<Rightarrow>
   js_error option \<times> ('md, 'ty, 'loc, 'ctx) heap_object list" where
  "forEach_heap parseMarkdown [] result h = (None, h)"
| "forEach_heap parseMarkdown (t # ts) result h =
     (case heap_read h result of
        Some (Decorated r) \<Rightarrow>
          (case each_tag parseMarkdown r t of
             Inl e \<Rightarrow> (Some e, h)
           | Inr r' \<Rightarrow>
               forEach_heap parseMarkdown ts result (heap_write h result (Decorated r')))
      | _ \<Rightarrow> (Some TypeError, h))"

text \<open>
  \<open>parseJSDoc\<close> on the heap. The parser allocates a fresh object for every call; the
  outcome is \<open>null\<close>, the reference to that object, or an exception, together with
  the heap the call leaves behind.
\<close>

definition parseJSDoc_heap ::
  "(string \<Rightarrow> 'ty doctrine_result) \<Rightarrow> (string \<Rightarrow> 'md) \<Rightarrow> string \<Rightarrow> 'loc \<Rightarrow> 'ctx \<Rightarrow>
   ('md, 'ty, 'loc, 'ctx) heap_object list \<Rightarrow>
   (js_error + nat option) \<times> ('md, 'ty, 'loc, 'ctx) heap_object list" where
  "parseJSDoc_heap doctrine_parse parseMarkdown comment l c h =
     (let parsed = doctrine_parse comment;
          (result, h1) = heap_alloc (Parsed parsed) h
      in if findIndex (\<lambda>item. tag_title item = ''bleno'') (doc_tags parsed) = - 1
         then (Inr None, h1)
         else
           (let h2 = heap_write h1 result (Decorated (decorated parseMarkdown parsed l c))
            in (case forEach_heap parseMarkdown (doc_tags parsed) result h2 of
                  (Some e, h3) \<Rightarrow> (Inl e, h3)
                | (None, h3) \<Rightarrow> (Inr (Some result), h3))))"

section \<open>Example inputs\<close>

text \<open>
  Stand-ins for the collaborators in the examples: a parser that returns a fixed
  result whatever text it is given, and a renderer that wraps the text in a paragraph.
  Each example below is the result the stand-in parser returns; the comment text passed
  along with it is there for the reader.
\<close>

definition parser_of :: "'ty doctrine_result \<Rightarrow> string \<Rightarrow> 'ty doctrine_result" where
  "parser_of result comment = result"

definition render :: "string \<Rightarrow> string" where
  "render s = ''<p>'' @ s @ ''</p>''"

definition plain_tag :: "string \<Rightarrow> string option \<Rightarrow> int \<Rightarrow> string tag" where
  "plain_tag t d n =
     \<lparr>tag_title = t, tag_name = None, tag_type = None, tag_description = d,
      tag_lineNumber = n, tag_errors = None\<rparr>"

definition property_tag ::
  "string \<Rightarrow> string \<Rightarrow> string option \<Rightarrow> int \<Rightarrow> string tag" where
  "property_tag ty n d ln =
     \<lparr>tag_title = ''property'', tag_name = Some n, tag_type = Some ty,
      tag_description = d, tag_lineNumber = ln, tag_errors = None\<rparr>"

definition flagged_tag :: "string \<Rightarrow> string list \<Rightarrow> int \<Rightarrow> string tag" where
  "flagged_tag t es n =
     \<lparr>tag_title = t, tag_name = None, tag_type = None, tag_description = None,
      tag_lineNumber = n, tag_errors = Some es\<rparr>"

text \<open>\<open>@property {Foo} bar baz\<close>: no marker tag.\<close>

definition only_property :: "string doctrine_result" where
  "only_property =
     \<lparr>doc_description = Some [],
      doc_tags = [property_tag ''Foo'' ''bar'' (Some ''baz'') 0]\<rparr>"

text \<open>The marker tag and two property tags, the second without a description.\<close>

definition getTxStatus_comment :: string where
  "getTxStatus_comment =
     ''Responds with a transaction status.\<newline>@bleno getTxStatus\<newline>'' @
     ''@property {Hash} Request Hex prefixed tx hash\<newline>@property {Public} Access''"

definition getTxStatus :: "string doctrine_result" where
  "getTxStatus =
     \<lparr>doc_description = Some ''Responds with a transaction status.'',
      doc_tags =
        [plain_tag ''bleno'' (Some ''getTxStatus'') 1,
         property_tag ''Hash'' ''Request'' (Some ''Hex prefixed tx hash'') 2,
         property_tag ''Public'' ''Access'' None 3]\<rparr>"

text \<open>\<open>@bleno x\<close> then \<open>@unknown y\<close>.\<close>

definition unknown_tag :: "string doctrine_result" where
  "unknown_tag =
     \<lparr>doc_description = Some [],
      doc_tags = [plain_tag ''bleno'' (Some ''x'') 0, plain_tag ''unknown'' (Some ''y'') 1]\<rparr>"

text \<open>\<open>@bleno x\<close> then \<open>@constructor\<close>.\<close>

definition constructor_tag :: "string doctrine_result" where
  "constructor_tag =
     \<lparr>doc_description = Some [],
      doc_tags = [plain_tag ''bleno'' (Some ''x'') 0, plain_tag ''constructor'' None 1]\<rparr>"

text \<open>\<open>@bleno x\<close> then \<open>@toString y\<close>.\<close>

definition toString_tag :: "string doctrine_result" where
  "toString_tag =
     \<lparr>doc_description = Some [],
      doc_tags = [plain_tag ''bleno'' (Some ''x'') 0, plain_tag ''toString'' (Some ''y'') 1]\<rparr>"

text \<open>\<open>@bleno x\<close> then a property tag that the parser flags with two messages.\<close>

definition broken_property :: "string doctrine_result" where
  "broken_property =
     \<lparr>doc_description = Some [],
      doc_tags =
        [plain_tag ''bleno'' (Some ''x'') 0,
         flagged_tag ''property''
           [''Braces are not balanced'', ''Missing or invalid tag name''] 1]\<rparr>"

text \<open>Two marker tags.\<close>

definition two_markers :: "string doctrine_result" where
  "two_markers =
     \<lparr>doc_description = Some [],
      doc_tags = [plain_tag ''bleno'' (Some ''first'') 0, plain_tag ''bleno'' (Some ''second'') 1]\<rparr>"

text \<open>\<open>@bleno x\<close> alone, with and without leading text.\<close>

definition marker_only :: "string doctrine_result" where
  "marker_only =
     \<lparr>doc_description = Some [], doc_tags = [plain_tag ''bleno'' (Some ''x'') 0]\<rparr>"

definition marker_with_text :: "string doctrine_result" where
  "marker_with_text =
     \<lparr>doc_description = Some ''Reads a value.'',
      doc_tags = [plain_tag ''bleno'' (Some ''x'') 1]\<rparr>"

section \<open>Lemmas about the walk over the tags\<close>

lemma findIndex_ge: "- 1 \<le> findIndex p xs"
  by (induction xs) (auto simp: Let_def)

lemma findIndex_none: "(findIndex p xs = - 1) = (\<forall>x\<in>set xs. \<not> p x)"
proof (induction xs)
  case Nil
  show ?case by simp
next
  case (Cons x xs)
  have "- 1 \<le> findIndex p xs" by (rule findIndex_ge)
  with Cons show ?case by (auto simp: Let_def)
qed

lemma push_messages_eq:
  "push_messages r es =
     r\<lparr>errors := errors r @ map (\<lambda>m. \<lparr>message = m, commentLineNumber = None\<rparr>) es\<rparr>"
  by (induction es arbitrary: r) auto

lemma call_flattener_Inr:
  "call_flattener pm f r t = Inr r' \<Longrightarrow>
     r' = (case f of flatten_bleno \<Rightarrow> bleno r t
           | flatten_property \<Rightarrow> property pm r t
           | Object_prototype k \<Rightarrow> r)"
  by (cases f) (auto simp: Object_prototype_call_def split: if_splits)

lemma each_tag_errors:
  "each_tag pm r t = Inr r' \<Longrightarrow> errors r' = errors r @ error_entries t"
  by (auto simp: each_tag_def error_entries_def push_messages_eq bleno_def property_def
        Let_def
      split: option.splits flattener.splits dest!: call_flattener_Inr)

lemma each_tag_name:
  "each_tag pm r t = Inr r' \<Longrightarrow>
     name r' = (if flattened ''bleno'' t then Some (tag_description t) else name r)"
  by (auto simp: each_tag_def flattened_def push_messages_eq bleno_def property_def
        Let_def flatteners_def
      split: option.splits flattener.splits if_splits dest!: call_flattener_Inr)

lemma each_tag_properties:
  "each_tag pm r t = Inr r' \<Longrightarrow>
     properties r' =
       (if flattened ''property'' t
        then Some ((case properties r of None \<Rightarrow> [] | Some q \<Rightarrow> q) @ [Property_of pm t])
        else properties r)"
  by (auto simp: each_tag_def flattened_def push_messages_eq bleno_def property_def
        Let_def flatteners_def Property_of_def truthy_def
      split: option.splits flattener.splits if_splits dest!: call_flattener_Inr)

lemma each_tag_frame:
  "each_tag pm r t = Inr r' \<Longrightarrow>
     description r' = description r \<and> tags r' = tags r \<and> loc r' = loc r \<and>
     code_context r' = code_context r"
  by (auto simp: each_tag_def push_messages_eq bleno_def property_def Let_def
      split: option.splits flattener.splits dest!: call_flattener_Inr)

lemma each_tag_raises: "raises t \<Longrightarrow> each_tag pm r t = Inl TypeError"
  by (auto simp: each_tag_def raises_def flatteners_def Object_prototype_keys_def
        Object_prototype_call_def)

lemma each_tag_returns: "\<not> raises t \<Longrightarrow> \<exists>r'. each_tag pm r t = Inr r'"
  by (auto simp: each_tag_def raises_def flatteners_def Object_prototype_keys_def
        Object_prototype_call_def split: option.splits)

lemma each_tag_marker:
  "flattened ''bleno'' t \<Longrightarrow> each_tag pm r t = Inr (r\<lparr>name := Some (tag_description t)\<rparr>)"
  by (simp add: each_tag_def flattened_def flatteners_def bleno_def)

lemma each_tag_unknown:
  "tag_errors t = None \<Longrightarrow> flatteners (tag_title t) = None \<Longrightarrow>
     each_tag pm r t =
       Inr (r\<lparr>errors := errors r @
              [\<lparr>message = ''unknown tag @'' @ tag_title t,
                commentLineNumber = Some (tag_lineNumber t)\<rparr>]\<rparr>)"
  by (simp add: each_tag_def)

lemma forEach_raises:
  "\<exists>t\<in>set ts. raises t \<Longrightarrow> forEach pm ts r = Inl TypeError"
proof (induction ts arbitrary: r)
  case Nil
  then show ?case by simp
next
  case (Cons t ts)
  show ?case
  proof (cases "raises t")
    case True
    then show ?thesis by (simp add: each_tag_raises)
  next
    case False
    then obtain r' where r': "each_tag pm r t = Inr r'"
      using each_tag_returns by blast
    from False Cons.prems have "\<exists>t\<in>set ts. raises t" by auto
    with Cons.IH r' show ?thesis by simp
  qed
qed

lemma forEach_returns:
  "\<forall>t\<in>set ts. \<not> raises t \<Longrightarrow> \<exists>r'. forEach pm ts r = Inr r'"
proof (induction ts arbitrary: r)
  case Nil
  then show ?case by simp
next
  case (Cons t ts)
  then obtain r' where r': "each_tag pm r t = Inr r'"
    using each_tag_returns by (metis list.set_intros(1))
  with Cons show ?case by simp
qed

lemma forEach_errors:
  "forEach pm ts r = Inr r' \<Longrightarrow> errors r' = errors r @ concat (map error_entries ts)"
proof (induction ts arbitrary: r)
  case Nil
  then show ?case by simp
next
  case (Cons t ts)
  then show ?case
    by (auto split: sum.splits dest!: each_tag_errors)
qed

lemma forEach_frame:
  "forEach pm ts r = Inr r' \<Longrightarrow>
     description r' = description r \<and> tags r' = tags r \<and> loc r' = loc r \<and>
     code_context r' = code_context r"
proof (induction ts arbitrary: r)
  case Nil
  then show ?case by simp
next
  case (Cons t ts)
  then show ?case
    by (auto split: sum.splits dest!: each_tag_frame)
qed

lemma forEach_name:
  "forEach pm ts r = Inr r' \<Longrightarrow>
     name r' =
       (if filter (flattened ''bleno'') ts = [] then name r
        else Some (tag_description (last (filter (flattened ''bleno'') ts))))"
proof (induction ts arbitrary: r)
  case Nil
  then show ?case by simp
next
  case (Cons t ts)
  from Cons.prems obtain r1 where r1: "each_tag pm r t = Inr r1" "forEach pm ts r1 = Inr r'"
    by (auto split: sum.splits)
  from Cons.IH[OF r1(2)] each_tag_name[OF r1(1)] show ?case by auto
qed

lemma forEach_properties:
  "forEach pm ts r = Inr r' \<Longrightarrow>
     properties r' =
       (if filter (flattened ''property'') ts = [] then properties r
        else Some ((case properties r of None \<Rightarrow> [] | Some q \<Rightarrow> q) @
                   map (Property_of pm) (filter (flattened ''property'') ts)))"
proof (induction ts arbitrary: r)
  case Nil
  then show ?case by simp
next
  case (Cons t ts)
  from Cons.prems obtain r1 where r1: "each_tag pm r t = Inr r1" "forEach pm ts r1 = Inr r'"
    by (auto split: sum.splits)
  from Cons.IH[OF r1(2)] each_tag_properties[OF r1(1)] show ?case by auto
qed

section \<open>Lemmas about \<open>parseJSDoc\<close>\<close>

lemma parseJSDoc_walk:
  "parseJSDoc dp pm cm l c =
     (if \<forall>t\<in>set (doc_tags (dp cm)). tag_title t \<noteq> ''bleno'' then Inr None
      else (case forEach pm (doc_tags (dp cm)) (decorated pm (dp cm) l c) of
              Inl e \<Rightarrow> Inl e
            | Inr r \<Rightarrow> Inr (Some r)))"
  by (simp add: parseJSDoc_def decorated_def Let_def findIndex_none)

lemma parseJSDoc_Some:
  "parseJSDoc dp pm cm l c = Inr (Some r) \<Longrightarrow>
     forEach pm (doc_tags (dp cm)) (decorated pm (dp cm) l c) = Inr r"
  by (auto simp: parseJSDoc_walk split: if_splits sum.splits)

lemma parseJSDoc_not_null:
  "\<exists>t\<in>set (doc_tags (dp cm)). tag_title t = ''bleno'' \<Longrightarrow> parseJSDoc dp pm cm l c \<noteq> Inr None"
  by (auto simp: parseJSDoc_walk split: sum.splits)

lemma parseJSDoc_returns:
  assumes "\<exists>t\<in>set (doc_tags (dp cm)). tag_title t = ''bleno''"
    and "\<forall>t\<in>set (doc_tags (dp cm)). \<not> raises t"
  shows "\<exists>r. parseJSDoc dp pm cm l c = Inr (Some r)"
proof -
  have "\<exists>r. forEach pm (doc_tags (dp cm)) (decorated pm (dp cm) l c) = Inr r"
    using assms(2) by (rule forEach_returns)
  then obtain r where "forEach pm (doc_tags (dp cm)) (decorated pm (dp cm) l c) = Inr r"
    by blast
  with assms(1) show ?thesis by (auto simp: parseJSDoc_walk)
qed

lemma parseJSDoc_raises:
  assumes "\<exists>t\<in>set (doc_tags (dp cm)). tag_title t = ''bleno''"
    and "\<exists>t\<in>set (doc_tags (dp cm)). raises t"
  shows "parseJSDoc dp pm cm l c = Inl TypeError"
proof -
  have "forEach pm (doc_tags (dp cm)) (decorated pm (dp cm) l c) = Inl TypeError"
    using assms(2) by (rule forEach_raises)
  with assms(1) show ?thesis by (auto simp: parseJSDoc_walk)
qed

lemma parseJSDoc_errors:
  "parseJSDoc dp pm cm l c = Inr (Some r) \<Longrightarrow>
     errors r = concat (map error_entries (doc_tags (dp cm)))"
  by (drule parseJSDoc_Some, drule forEach_errors) (simp add: decorated_def)

lemma parseJSDoc_name:
  "parseJSDoc dp pm cm l c = Inr (Some r) \<Longrightarrow>
     name r =
       (if filter (flattened ''bleno'') (doc_tags (dp cm)) = [] then None
        else Some (tag_description (last (filter (flattened ''bleno'') (doc_tags (dp cm))))))"
  by (drule parseJSDoc_Some, drule forEach_name) (simp add: decorated_def)

lemma parseJSDoc_properties:
  "parseJSDoc dp pm cm l c = Inr (Some r) \<Longrightarrow>
     properties r =
       (if filter (flattened ''property'') (doc_tags (dp cm)) = [] then None
        else Some (map (Property_of pm) (filter (flattened ''property'') (doc_tags (dp cm)))))"
  by (drule parseJSDoc_Some, drule forEach_properties) (simp add: decorated_def)

lemma parseJSDoc_frame:
  "parseJSDoc dp pm cm l c = Inr (Some r) \<Longrightarrow>
     description r = description (decorated pm (dp cm) l c) \<and>
     tags r = doc_tags (dp cm) \<and> loc r = l \<and> code_context r = c"
  by (drule parseJSDoc_Some, drule forEach_frame) (simp add: decorated_def)

lemma error_entries_marker: "flattened ''bleno'' t \<Longrightarrow> error_entries t = []"
  by (simp add: error_entries_def flattened_def flatteners_def)

lemma concat_error_entries_markers:
  "concat (map error_entries ts) =
     concat (map error_entries (filter (\<lambda>t. \<not> flattened ''bleno'' t) ts))"
  by (induction ts) (auto simp: error_entries_marker)

section \<open>Lemmas about the heap\<close>

lemma forEach_heap_frame:
  "forEach_heap pm ts a h = (x, h') \<Longrightarrow>
     length h' = length h \<and> (\<forall>b. b \<noteq> a \<longrightarrow> h' ! b = h ! b)"
proof (induction ts arbitrary: h)
  case Nil
  then show ?case by simp
next
  case (Cons t ts)
  show ?case
  proof (cases "heap_read h a")
    case None
    with Cons.prems show ?thesis by simp
  next
    case (Some obj)
    show ?thesis
    proof (cases obj)
      case (Parsed d)
      with Some Cons.prems show ?thesis by simp
    next
      case (Decorated r)
      show ?thesis
      proof (cases "each_tag pm r t")
        case (Inl e)
        with Some Decorated Cons.prems show ?thesis by simp
      next
        case (Inr r')
        with Some Decorated Cons.prems
        have "forEach_heap pm ts a (heap_write h a (Decorated r')) = (x, h')"
          by simp
        from Cons.IH[OF this] show ?thesis
          by (simp add: heap_write_def)
      qed
    qed
  qed
qed

lemma forEach_heap_Inr:
  "a < length h \<Longrightarrow> h ! a = Decorated r \<Longrightarrow> forEach pm ts r = Inr r' \<Longrightarrow>
     forEach_heap pm ts a h = (None, h[a := Decorated r'])"
proof (induction ts arbitrary: h r)
  case Nil
  then have "r' = r" by simp
  moreover have "h[a := h ! a] = h" by (rule list_update_id)
  ultimately show ?case using Nil.prems(2) by simp
next
  case (Cons t ts)
  from Cons.prems(3) obtain r1 where
    r1: "each_tag pm r t = Inr r1" "forEach pm ts r1 = Inr r'"
    by (auto split: sum.splits)
  have "forEach_heap pm ts a (h[a := Decorated r1]) =
          (None, (h[a := Decorated r1])[a := Decorated r'])"
    using Cons.prems(1) r1(2) by (intro Cons.IH) simp_all
  with Cons.prems(1,2) r1(1) show ?case
    by (simp add: heap_read_def heap_write_def)
qed

lemma forEach_heap_Inl:
  "a < length h \<Longrightarrow> h ! a = Decorated r \<Longrightarrow> forEach pm ts r = Inl e \<Longrightarrow>
     fst (forEach_heap pm ts a h) = Some e"
proof (induction ts arbitrary: h r)
  case Nil
  then show ?case by simp
next
  case (Cons t ts)
  show ?case
  proof (cases "each_tag pm r t")
    case (Inl e')
    with Cons.prems show ?thesis
      by (simp add: heap_read_def)
  next
    case (Inr r1)
    with Cons.prems(3) have rest: "forEach pm ts r1 = Inl e"
      by simp
    have "fst (forEach_heap pm ts a (h[a := Decorated r1])) = Some e"
      using Cons.prems(1) rest by (intro Cons.IH) simp_all
    with Cons.prems(1,2) Inr show ?thesis
      by (simp add: heap_read_def heap_write_def)
  qed
qed

lemma parseJSDoc_heap_walk:
  "parseJSDoc_heap dp pm cm l c h =
     (if \<forall>t\<in>set (doc_tags (dp cm)). tag_title t \<noteq> ''bleno''
      then (Inr None, h @ [Parsed (dp cm)])
      else (case forEach_heap pm (doc_tags (dp cm)) (length h)
                  (h @ [Decorated (decorated pm (dp cm) l c)]) of
              (Some e, h3) \<Rightarrow> (Inl e, h3)
            | (None, h3) \<Rightarrow> (Inr (Some (length h)), h3)))"
  by (simp add: parseJSDoc_heap_def heap_alloc_def heap_write_def Let_def findIndex_none)

text \<open>
  A call on the heap allocates one object, leaves every older object as it was, and its
  outcome is the outcome of \<open>parseJSDoc\<close>, the returned object standing at the new
  reference.
\<close>

lemma parseJSDoc_heap_refines:
  assumes "parseJSDoc_heap dp pm cm l c h = (out, h')"
  shows "length h' = Suc (length h) \<and> take (length h) h' = h \<and>
         (case parseJSDoc dp pm cm l c of
            Inl e \<Rightarrow> out = Inl e
          | Inr None \<Rightarrow> out = Inr None
          | Inr (Some r) \<Rightarrow> out = Inr (Some (length h)) \<and> h' ! length h = Decorated r)"
proof (cases "\<forall>t\<in>set (doc_tags (dp cm)). tag_title t \<noteq> ''bleno''")
  case True
  then have "parseJSDoc dp pm cm l c = Inr None"
    by (simp add: parseJSDoc_walk)
  moreover from True assms have "out = Inr None" "h' = h @ [Parsed (dp cm)]"
    by (simp_all add: parseJSDoc_heap_walk)
  ultimately show ?thesis by simp
next
  case False
  let ?a = "length h"
  let ?h2 = "h @ [Decorated (decorated pm (dp cm) l c)]"
  obtain x h3 where walk: "forEach_heap pm (doc_tags (dp cm)) ?a ?h2 = (x, h3)"
    by (cases "forEach_heap pm (doc_tags (dp cm)) ?a ?h2") blast
  have "parseJSDoc_heap dp pm cm l c h =
          (case forEach_heap pm (doc_tags (dp cm)) ?a ?h2 of
             (Some e, h3) \<Rightarrow> (Inl e, h3)
           | (None, h3) \<Rightarrow> (Inr (Some ?a), h3))"
    unfolding parseJSDoc_heap_walk by (rule if_not_P[OF False])
  with assms
  have "(case forEach_heap pm (doc_tags (dp cm)) ?a ?h2 of
           (Some e, h3) \<Rightarrow> (Inl e, h3)
         | (None, h3) \<Rightarrow> (Inr (Some ?a), h3)) = (out, h')"
    by simp
  with walk have out: "out = (case x of Some e \<Rightarrow> Inl e | None \<Rightarrow> Inr (Some ?a))"
    and h': "h' = h3"
    by (cases x; simp)+
  from forEach_heap_frame[OF walk]
  have len: "length h3 = Suc ?a" and old: "\<forall>b. b \<noteq> ?a \<longrightarrow> h3 ! b = ?h2 ! b"
    by simp_all
  have "take ?a h3 = h"
  proof (rule nth_equalityI)
    show "length (take ?a h3) = length h" using len by simp
  next
    fix i assume "i < length (take ?a h3)"
    then have i: "i < ?a" by simp
    with old have "h3 ! i = ?h2 ! i" by simp
    with i show "take ?a h3 ! i = h ! i" by (simp add: nth_append)
  qed
  moreover have "case parseJSDoc dp pm cm l c of
            Inl e \<Rightarrow> out = Inl e
          | Inr None \<Rightarrow> out = Inr None
          | Inr (Some r) \<Rightarrow> out = Inr (Some ?a) \<and> h' ! ?a = Decorated r"
  proof (cases "forEach pm (doc_tags (dp cm)) (decorated pm (dp cm) l c)")
    case (Inl e)
    have "fst (forEach_heap pm (doc_tags (dp cm)) ?a ?h2) = Some e"
      by (rule forEach_heap_Inl[OF _ _ Inl]) simp_all
    with walk have "x = Some e" by simp
    with out Inl False show ?thesis by (simp add: parseJSDoc_walk)
  next
    case (Inr r)
    have "forEach_heap pm (doc_tags (dp cm)) ?a ?h2 = (None, ?h2[?a := Decorated r])"
      by (rule forEach_heap_Inr[OF _ _ Inr]) simp_all
    with walk have "x = None" "h3 = ?h2[?a := Decorated r]" by simp_all
    then have "x = None" "h3 ! ?a = Decorated r" by simp_all
    with out h' Inr False show ?thesis by (simp add: parseJSDoc_walk)
  qed
  ultimately show ?thesis using len h' by simp
qed

lemma delivered_quiet: "delivered t \<Longrightarrow> \<not> raises t"
  by (simp add: delivered_def raises_def)

section \<open>The claims\<close>

text \<open>
  C1: a comment whose tags hold no tag titled \<open>bleno\<close> yields exactly \<open>null\<close>,
  whatever else the tags hold: no object, and so no errors, come back.
\<close>

theorem no_marker_returns_null:
  "\<forall>t\<in>set (doc_tags (doctrine_parse comment)). tag_title t \<noteq> ''bleno'' \<Longrightarrow>
     parseJSDoc doctrine_parse parseMarkdown comment l c = Inr None"
  by (simp add: parseJSDoc_def Let_def findIndex_none)

theorem no_marker_returns_null_witness:
  "parseJSDoc (parser_of only_property) render ''@property {Foo} bar baz''
     (12::nat) ''onRead'' = Inr None"
  using no_marker_returns_null
    [where doctrine_parse = "parser_of only_property"
       and comment = "''@property {Foo} bar baz''"
       and parseMarkdown = render and l = "12::nat" and c = "''onRead''"]
  by (simp add: parser_of_def only_property_def property_tag_def)

text \<open>
  C2: when the tags are the marker tag followed by N property tags (N at least 1) without
  parser errors, the returned object's \<open>properties\<close> has exactly N entries in the
  order of the tags. Entry i has the tag's \<open>name\<close> and \<open>lineNumber\<close>, has the
  rendered description exactly when the tag's description is a non-empty string (the test
  \<open>if (tag.description)\<close>), and has the tag's type exactly when the tag has one.
\<close>

theorem marker_then_properties:
  assumes "doc_tags (doctrine_parse comment) = m # ps"
    and "tag_title m = ''bleno''"
    and "ps \<noteq> []"
    and "\<forall>p\<in>set ps. tag_title p = ''property'' \<and> tag_errors p = None"
  shows "\<exists>r props.
           parseJSDoc doctrine_parse parseMarkdown comment l c = Inr (Some r) \<and>
           properties r = Some props \<and> length props = length ps \<and>
           (\<forall>i<length ps.
              property_name (props ! i) = tag_name (ps ! i) \<and>
              property_lineNumber (props ! i) = tag_lineNumber (ps ! i) \<and>
              property_description (props ! i) =
                (if truthy (tag_description (ps ! i))
                 then map_option parseMarkdown (tag_description (ps ! i)) else None) \<and>
              (property_description (props ! i) \<noteq> None) = truthy (tag_description (ps ! i)) \<and>
              property_type (props ! i) = tag_type (ps ! i))"
proof -
  let ?ts = "doc_tags (doctrine_parse comment)"
  have marker: "\<exists>t\<in>set ?ts. tag_title t = ''bleno''"
    using assms(1,2) by auto
  have quiet: "\<forall>t\<in>set ?ts. \<not> raises t"
    using assms(1,2,4) by (auto simp: raises_def)
  have "\<exists>r. parseJSDoc doctrine_parse parseMarkdown comment l c = Inr (Some r)"
    using marker quiet by (rule parseJSDoc_returns)
  then obtain r where r: "parseJSDoc doctrine_parse parseMarkdown comment l c = Inr (Some r)"
    by blast
  have "filter (flattened ''property'') ps = ps"
    using assms(4) by (auto simp: flattened_def filter_id_conv)
  then have sel: "filter (flattened ''property'') ?ts = ps"
    using assms(1,2) by (simp add: flattened_def)
  define props where "props = map (Property_of parseMarkdown) ps"
  have props: "properties r = Some props"
    using parseJSDoc_properties[OF r] sel assms(3) by (simp add: props_def)
  have len: "length props = length ps"
    by (simp add: props_def)
  have each: "\<forall>i<length ps.
          property_name (props ! i) = tag_name (ps ! i) \<and>
          property_lineNumber (props ! i) = tag_lineNumber (ps ! i) \<and>
          property_description (props ! i) =
            (if truthy (tag_description (ps ! i))
             then map_option parseMarkdown (tag_description (ps ! i)) else None) \<and>
          (property_description (props ! i) \<noteq> None) = truthy (tag_description (ps ! i)) \<and>
          property_type (props ! i) = tag_type (ps ! i)"
    by (auto simp: props_def Property_of_def truthy_def split: option.splits)
  from r props len each show ?thesis by blast
qed

theorem marker_then_properties_witness:
  "\<exists>r props.
     parseJSDoc (parser_of getTxStatus) render getTxStatus_comment (12::nat) ''onGetTxStatus'' =
       Inr (Some r) \<and>
     properties r = Some props \<and> length props = 2 \<and>
     property_name (props ! 0) = Some ''Request'' \<and>
     property_description (props ! 0) = Some ''<p>Hex prefixed tx hash</p>'' \<and>
     property_type (props ! 0) = Some ''Hash'' \<and>
     property_name (props ! 1) = Some ''Access'' \<and>
     property_lineNumber (props ! 1) = 3 \<and>
     property_description (props ! 1) = None"
proof -
  have tags: "doc_tags (parser_of getTxStatus getTxStatus_comment) =
      plain_tag ''bleno'' (Some ''getTxStatus'') 1 #
      [property_tag ''Hash'' ''Request'' (Some ''Hex prefixed tx hash'') 2,
       property_tag ''Public'' ''Access'' None 3]"
    by (simp add: parser_of_def getTxStatus_def)
  from marker_then_properties[where doctrine_parse = "parser_of getTxStatus"
      and comment = getTxStatus_comment and parseMarkdown = render and l = "12::nat"
      and c = "''onGetTxStatus''", OF tags]
  obtain r props where
    r: "parseJSDoc (parser_of getTxStatus) render getTxStatus_comment (12::nat) ''onGetTxStatus'' =
         Inr (Some r)"
    and p: "properties r = Some props" "length props = 2"
    and e: "\<forall>i<2.
          property_name (props ! i) =
            tag_name ([property_tag ''Hash'' ''Request'' (Some ''Hex prefixed tx hash'') 2,
                       property_tag ''Public'' ''Access'' None 3] ! i) \<and>
          property_lineNumber (props ! i) =
            tag_lineNumber ([property_tag ''Hash'' ''Request'' (Some ''Hex prefixed tx hash'') 2,
                       property_tag ''Public'' ''Access'' None 3] ! i) \<and>
          property_description (props ! i) =
            (if truthy (tag_description
                 ([property_tag ''Hash'' ''Request'' (Some ''Hex prefixed tx hash'') 2,
                   property_tag ''Public'' ''Access'' None 3] ! i))
             then map_option render (tag_description
                 ([property_tag ''Hash'' ''Request'' (Some ''Hex prefixed tx hash'') 2,
                   property_tag ''Public'' ''Access'' None 3] ! i))
             else None) \<and>
          property_type (props ! i) =
            tag_type ([property_tag ''Hash'' ''Request'' (Some ''Hex prefixed tx hash'') 2,
                       property_tag ''Public'' ''Access'' None 3] ! i)"
    by (auto simp: plain_tag_def property_tag_def)
  from e have "property_name (props ! 0) = Some ''Request''"
    "property_description (props ! 0) = Some ''<p>Hex prefixed tx hash</p>''"
    "property_type (props ! 0) = Some ''Hash''"
    by (simp_all add: property_tag_def truthy_def render_def)
  moreover from e have "property_name (props ! 1) = Some ''Access''"
    "property_lineNumber (props ! 1) = 3"
    "property_description (props ! 1) = None"
    by (simp_all add: property_tag_def truthy_def render_def)
  ultimately show ?thesis using r p by blast
qed

text \<open>
  C3, as the code has it: a tag that carries parser messages adds exactly one entry per
  message to \<open>errors\<close>, in the order of the messages, each entry holding the
  message alone (no \<open>commentLineNumber\<close> key), and changes nothing else of the
  object: the tag is not flattened.
\<close>

theorem flagged_tag_entries:
  "tag_errors t = Some es \<Longrightarrow>
     each_tag parseMarkdown result t =
       Inr (result\<lparr>errors := errors result @
              map (\<lambda>m. \<lparr>message = m, commentLineNumber = None\<rparr>) es\<rparr>)"
  by (simp add: each_tag_def push_messages_eq)

theorem flagged_tag_entries_witness:
  "each_tag render (decorated render broken_property (12::nat) ''onRead'')
     (flagged_tag ''property'' [''Braces are not balanced'', ''Missing or invalid tag name''] 1) =
   Inr \<lparr>description = Some (Unrendered []),
        tags = doc_tags broken_property,
        loc = 12,
        code_context = ''onRead'',
        errors = [\<lparr>message = ''Braces are not balanced'', commentLineNumber = None\<rparr>,
                  \<lparr>message = ''Missing or invalid tag name'', commentLineNumber = None\<rparr>],
        name = None,
        properties = None\<rparr>"
  using flagged_tag_entries
    [where t = "flagged_tag ''property''
                  [''Braces are not balanced'', ''Missing or invalid tag name''] 1"
       and es = "[''Braces are not balanced'', ''Missing or invalid tag name'']"
       and parseMarkdown = render
       and result = "decorated render broken_property (12::nat) ''onRead''"]
  by (simp add: flagged_tag_def decorated_def broken_property_def)

text \<open>
  C3 as stated fails: the flagged property tag stands on line 1, and neither of the two
  entries it adds holds a line number.
\<close>

theorem flagged_tag_no_line_number:
  "parseJSDoc (parser_of broken_property) render ''@bleno x\<newline>@property {Hash'' (12::nat) ''onRead'' =
     Inr (Some
       \<lparr>description = Some (Unrendered []),
        tags = doc_tags broken_property,
        loc = 12,
        code_context = ''onRead'',
        errors = [\<lparr>message = ''Braces are not balanced'', commentLineNumber = None\<rparr>,
                  \<lparr>message = ''Missing or invalid tag name'', commentLineNumber = None\<rparr>],
        name = Some (Some ''x''),
        properties = None\<rparr>) \<and>
   tag_lineNumber (doc_tags broken_property ! 1) = 1"
  by (simp add: parseJSDoc_def parser_of_def broken_property_def plain_tag_def flagged_tag_def
      each_tag_def flatteners_def bleno_def Let_def)

text \<open>
  C4: when exactly one of the delivered tags is titled \<open>bleno\<close> and none is
  titled \<open>property\<close>, an object is returned, its \<open>name\<close> is the marker tag's
  description and it has no \<open>properties\<close> key. The tags are those the tag parser
  delivers (\<open>delivered\<close>): it never attaches errors to the marker tag, and none of its
  titles names a member of \<open>Object.prototype\<close> that cannot be called.
\<close>

theorem single_marker_sets_name:
  assumes "filter (\<lambda>t. tag_title t = ''bleno'') (doc_tags (doctrine_parse comment)) = [m]"
    and "\<forall>t\<in>set (doc_tags (doctrine_parse comment)). tag_title t \<noteq> ''property''"
    and "\<forall>t\<in>set (doc_tags (doctrine_parse comment)). delivered t"
  shows "\<exists>r. parseJSDoc doctrine_parse parseMarkdown comment l c = Inr (Some r) \<and>
              name r = Some (tag_description m) \<and> properties r = None"
proof -
  let ?ts = "doc_tags (doctrine_parse comment)"
  have "m \<in> set (filter (\<lambda>t. tag_title t = ''bleno'') ?ts)"
    using assms(1) by simp
  then have m: "m \<in> set ?ts" "tag_title m = ''bleno''"
    by auto
  then have marker: "\<exists>t\<in>set ?ts. tag_title t = ''bleno''"
    by blast
  from m assms(3) have clean: "tag_errors m = None"
    by (auto simp: delivered_def)
  have "filter (flattened ''bleno'') ?ts =
          filter (\<lambda>t. tag_errors t = None) (filter (\<lambda>t. tag_title t = ''bleno'') ?ts)"
    by (simp add: flattened_def[abs_def] conj_commute)
  then have markers: "filter (flattened ''bleno'') ?ts = [m]"
    using assms(1) clean by simp
  have none: "filter (flattened ''property'') ?ts = []"
    using assms(2) by (auto simp: flattened_def filter_empty_conv)
  have quiet: "\<forall>t\<in>set ?ts. \<not> raises t"
    using assms(3) by (auto dest: delivered_quiet)
  have "\<exists>r. parseJSDoc doctrine_parse parseMarkdown comment l c = Inr (Some r)"
    using marker quiet by (rule parseJSDoc_returns)
  then obtain r where r: "parseJSDoc doctrine_parse parseMarkdown comment l c = Inr (Some r)"
    by blast
  from parseJSDoc_name[OF r] parseJSDoc_properties[OF r] markers none
  have "name r = Some (tag_description m) \<and> properties r = None"
    by simp
  with r show ?thesis by blast
qed

theorem single_marker_sets_name_witness:
  "\<exists>r. parseJSDoc (parser_of unknown_tag) render ''@bleno x\<newline>@unknown y'' (12::nat)
          ''onRead'' = Inr (Some r) \<and>
        name r = Some (Some ''x'') \<and> properties r = None"
proof -
  have one: "filter (\<lambda>t. tag_title t = ''bleno'')
      (doc_tags (parser_of unknown_tag ''@bleno x\<newline>@unknown y'')) =
      [plain_tag ''bleno'' (Some ''x'') 0]"
    by (simp add: parser_of_def unknown_tag_def plain_tag_def)
  have noprop: "\<forall>t\<in>set (doc_tags (parser_of unknown_tag ''@bleno x\<newline>@unknown y'')).
      tag_title t \<noteq> ''property''"
    by (simp add: parser_of_def unknown_tag_def plain_tag_def)
  have contract: "\<forall>t\<in>set (doc_tags (parser_of unknown_tag ''@bleno x\<newline>@unknown y'')).
      delivered t"
    by (simp add: parser_of_def unknown_tag_def plain_tag_def delivered_def)
  from single_marker_sets_name[where doctrine_parse = "parser_of unknown_tag"
      and comment = "''@bleno x\<newline>@unknown y''" and parseMarkdown = render
      and l = "12::nat" and c = "''onRead''", OF one noprop contract]
  show ?thesis by (simp add: plain_tag_def)
qed

text \<open>
  C5 fails on the code for a title that names a member of \<open>Object.prototype\<close>: the
  tag \<open>@constructor\<close> has no parser errors and is neither the marker nor the property
  tag, yet the lookup \<open>flatteners['constructor']\<close> finds the inherited function, the
  driver calls it, and no entry is added to \<open>errors\<close>.
\<close>

theorem constructor_tag_not_reported:
  "parseJSDoc (parser_of constructor_tag) render ''@bleno x\<newline>@constructor'' (12::nat) ''onRead'' =
     Inr (Some
       \<lparr>description = Some (Unrendered []),
        tags = doc_tags constructor_tag,
        loc = 12,
        code_context = ''onRead'',
        errors = [],
        name = Some (Some ''x''),
        properties = None\<rparr>)"
  by (simp add: parseJSDoc_def parser_of_def constructor_tag_def plain_tag_def
      each_tag_def flatteners_def Object_prototype_keys_def Object_prototype_call_def
      bleno_def Let_def)

text \<open>
  C6, as the code has it: a returned object is the parser's result object. It keeps the
  parser's \<open>tags\<close>; its \<open>description\<close> is the rendering of the parser's
  description when that is a non-empty string and is otherwise what the parser gave (an
  empty string stays an empty string); \<open>loc\<close> and \<open>context\<close> are the
  arguments; \<open>errors\<close> holds, from empty, what each tag adds, in order;
  \<open>name\<close> is absent exactly when no marker tag free of parser errors was met, and
  \<open>properties\<close> exactly when no property tag free of parser errors was met.
\<close>

theorem returned_record_fields:
  assumes "parseJSDoc doctrine_parse parseMarkdown comment l c = Inr (Some r)"
  shows "tags r = doc_tags (doctrine_parse comment) \<and> loc r = l \<and> code_context r = c \<and>
         description r =
           (case doc_description (doctrine_parse comment) of
              None \<Rightarrow> None
            | Some d \<Rightarrow>
                if d = [] then Some (Unrendered []) else Some (Rendered (parseMarkdown d))) \<and>
         errors r = concat (map error_entries (doc_tags (doctrine_parse comment))) \<and>
         (name r = None) =
           (filter (flattened ''bleno'') (doc_tags (doctrine_parse comment)) = []) \<and>
         (properties r = None) =
           (filter (flattened ''property'') (doc_tags (doctrine_parse comment)) = [])"
proof -
  have "description (decorated parseMarkdown (doctrine_parse comment) l c) =
          (case doc_description (doctrine_parse comment) of
             None \<Rightarrow> None
           | Some d \<Rightarrow>
               if d = [] then Some (Unrendered []) else Some (Rendered (parseMarkdown d)))"
    by (simp add: decorated_def split: option.splits)
  with parseJSDoc_frame[OF assms] parseJSDoc_errors[OF assms] parseJSDoc_name[OF assms]
    parseJSDoc_properties[OF assms]
  show ?thesis by simp
qed

theorem returned_record_fields_witness:
  "\<exists>r. parseJSDoc (parser_of marker_with_text) render ''Reads a value.\<newline>@bleno x'' (12::nat) ''onRead'' =
          Inr (Some r) \<and>
        tags r = [plain_tag ''bleno'' (Some ''x'') 1] \<and> loc r = 12 \<and>
        code_context r = ''onRead'' \<and>
        description r = Some (Rendered ''<p>Reads a value.</p>'') \<and>
        errors r = [] \<and> name r \<noteq> None \<and> properties r = None"
proof -
  have "\<exists>r. parseJSDoc (parser_of marker_with_text) render ''Reads a value.\<newline>@bleno x'' (12::nat)
          ''onRead'' = Inr (Some r)"
    by (rule parseJSDoc_returns)
      (simp_all add: parser_of_def marker_with_text_def plain_tag_def raises_def)
  then obtain r where
    r: "parseJSDoc (parser_of marker_with_text) render ''Reads a value.\<newline>@bleno x'' (12::nat) ''onRead'' =
          Inr (Some r)"
    by blast
  from returned_record_fields[OF r] r show ?thesis
    by (auto simp: parser_of_def marker_with_text_def plain_tag_def render_def
        error_entries_def flatteners_def flattened_def)
qed

text \<open>
  C6 as stated fails: for \<open>@bleno x\<close> the parser's result has the empty string as
  description, and the returned object still has that key, holding the empty string; it
  has the parser's \<open>tags\<close> as well.
\<close>

theorem empty_description_kept:
  "parseJSDoc (parser_of marker_only) render ''@bleno x'' (12::nat) ''onRead'' =
     Inr (Some
       \<lparr>description = Some (Unrendered []),
        tags = [plain_tag ''bleno'' (Some ''x'') 0],
        loc = 12,
        code_context = ''onRead'',
        errors = [],
        name = Some (Some ''x''),
        properties = None\<rparr>)"
  by (simp add: parseJSDoc_def parser_of_def marker_only_def plain_tag_def
      each_tag_def flatteners_def bleno_def Let_def)

text \<open>
  C7: every marker tag without parser errors sets \<open>name\<close> to its description, so
  the returned object's \<open>name\<close> is the description of the last such tag, and the
  marker tags add nothing to \<open>errors\<close>: the entries are those of the other tags.
\<close>

theorem last_marker_wins:
  assumes "parseJSDoc doctrine_parse parseMarkdown comment l c = Inr (Some r)"
    and "filter (flattened ''bleno'') (doc_tags (doctrine_parse comment)) = ms"
    and "ms \<noteq> []"
  shows "name r = Some (tag_description (last ms)) \<and>
         errors r =
           concat (map error_entries
             (filter (\<lambda>t. \<not> flattened ''bleno'' t) (doc_tags (doctrine_parse comment)))) \<and>
         (\<forall>t\<in>set ms. \<forall>r0 :: ('a, 'b, 'c, 'd) Comment.
            each_tag parseMarkdown r0 t = Inr (r0\<lparr>name := Some (tag_description t)\<rparr>))"
proof -
  have "name r = Some (tag_description (last ms))"
    using parseJSDoc_name[OF assms(1)] assms(2,3) by simp
  moreover have "errors r =
      concat (map error_entries
        (filter (\<lambda>t. \<not> flattened ''bleno'' t) (doc_tags (doctrine_parse comment))))"
    using parseJSDoc_errors[OF assms(1)] concat_error_entries_markers by metis
  moreover have "\<forall>t\<in>set ms. \<forall>r0 :: ('a, 'b, 'c, 'd) Comment.
      each_tag parseMarkdown r0 t = Inr (r0\<lparr>name := Some (tag_description t)\<rparr>)"
    using assms(2) by (auto simp: each_tag_marker)
  ultimately show ?thesis by blast
qed

theorem last_marker_wins_witness:
  "\<exists>r. parseJSDoc (parser_of two_markers) render ''@bleno first\<newline>@bleno second'' (12::nat) ''onRead'' =
          Inr (Some r) \<and>
        name r = Some (Some ''second'') \<and> errors r = []"
proof -
  have "\<exists>r. parseJSDoc (parser_of two_markers) render ''@bleno first\<newline>@bleno second'' (12::nat) ''onRead'' =
          Inr (Some r)"
    by (rule parseJSDoc_returns)
      (simp_all add: parser_of_def two_markers_def plain_tag_def raises_def)
  then obtain r where
    r: "parseJSDoc (parser_of two_markers) render ''@bleno first\<newline>@bleno second'' (12::nat) ''onRead'' =
          Inr (Some r)"
    by blast
  have ms: "filter (flattened ''bleno'') (doc_tags (parser_of two_markers ''@bleno first\<newline>@bleno second'')) =
      [plain_tag ''bleno'' (Some ''first'') 0, plain_tag ''bleno'' (Some ''second'') 1]"
    by (simp add: parser_of_def two_markers_def plain_tag_def flattened_def)
  from last_marker_wins[OF r ms] r show ?thesis
    by (auto simp: parser_of_def two_markers_def plain_tag_def flattened_def)
qed

text \<open>
  C8 fails on the code for the same titles as C5: \<open>@toString y\<close> is a tag with an
  unrecognized title, and the returned object reports nothing about it.
\<close>

theorem toString_tag_not_reported:
  "parseJSDoc (parser_of toString_tag) render ''@bleno x\<newline>@toString y'' (12::nat) ''onRead'' =
     Inr (Some
       \<lparr>description = Some (Unrendered []),
        tags = doc_tags toString_tag,
        loc = 12,
        code_context = ''onRead'',
        errors = [],
        name = Some (Some ''x''),
        properties = None\<rparr>)"
  by (simp add: parseJSDoc_def parser_of_def toString_tag_def plain_tag_def
      each_tag_def flatteners_def Object_prototype_keys_def Object_prototype_call_def
      bleno_def Let_def)

text \<open>
  C9: two calls with the same comment, location and context, the second made on the heap
  the first has left, have structurally equal results. Both outcomes are the outcome of
  \<open>parseJSDoc\<close>: both \<open>null\<close>, both the same exception, or two references to
  two different objects that agree on every key once both calls are done, the second
  call having changed nothing of the first call's object.
\<close>

theorem repeated_calls_agree:
  assumes "parseJSDoc_heap doctrine_parse parseMarkdown comment l c h0 = (out1, h1)"
    and "parseJSDoc_heap doctrine_parse parseMarkdown comment' l' c' h1 = (out2, h2)"
    and "comment = comment'" and "l = l'" and "c = c'"
  shows "(case parseJSDoc doctrine_parse parseMarkdown comment l c of
            Inl e \<Rightarrow> out1 = Inl e \<and> out2 = Inl e
          | Inr None \<Rightarrow> out1 = Inr None \<and> out2 = Inr None
          | Inr (Some r) \<Rightarrow>
              out1 = Inr (Some (length h0)) \<and> out2 = Inr (Some (length h1)) \<and>
              length h0 \<noteq> length h1 \<and>
              heap_read h1 (length h0) = Some (Decorated r) \<and>
              heap_read h2 (length h0) = Some (Decorated r) \<and>
              heap_read h2 (length h1) = Some (Decorated r))"
proof -
  note first = parseJSDoc_heap_refines[OF assms(1)]
  from assms(2-5) have "parseJSDoc_heap doctrine_parse parseMarkdown comment l c h1 = (out2, h2)"
    by simp
  note second = parseJSDoc_heap_refines[OF this]
  show ?thesis
  proof (cases "parseJSDoc doctrine_parse parseMarkdown comment l c")
    case (Inl e)
    with first second show ?thesis by simp
  next
    case (Inr res)
    show ?thesis
    proof (cases res)
      case None
      with Inr first second show ?thesis by simp
    next
      case (Some r)
      from first have len1: "length h1 = Suc (length h0)" by simp
      from second have len2: "length h2 = Suc (length h1)"
        and old: "take (length h1) h2 = h1" by simp_all
      from first Inr Some have o1: "out1 = Inr (Some (length h0))"
        and obj1: "h1 ! length h0 = Decorated r" by simp_all
      from second Inr Some have o2: "out2 = Inr (Some (length h1))"
        and obj2: "h2 ! length h1 = Decorated r" by simp_all
      have "h2 ! length h0 = take (length h1) h2 ! length h0"
        using len1 by simp
      with old obj1 have kept: "h2 ! length h0 = Decorated r" by simp
      from Inr Some o1 o2 obj1 obj2 kept len1 len2 show ?thesis
        by (simp add: heap_read_def)
    qed
  qed
qed

theorem repeated_calls_agree_witness:
  "\<exists>h1 h2.
     parseJSDoc_heap (parser_of marker_with_text) render ''Reads a value.\<newline>@bleno x''
       (12::nat) ''onRead'' [] = (Inr (Some 0), h1) \<and>
     parseJSDoc_heap (parser_of marker_with_text) render ''Reads a value.\<newline>@bleno x''
       (12::nat) ''onRead'' h1 = (Inr (Some 1), h2) \<and>
     heap_read h2 0 = heap_read h2 1 \<and> heap_read h2 0 = heap_read h1 0 \<and>
     heap_read h2 0 \<noteq> None"
proof -
  obtain out1 h1 where
    run1: "parseJSDoc_heap (parser_of marker_with_text) render
             ''Reads a value.\<newline>@bleno x'' (12::nat) ''onRead'' [] = (out1, h1)"
    by (cases "parseJSDoc_heap (parser_of marker_with_text) render
             ''Reads a value.\<newline>@bleno x'' (12::nat) ''onRead'' []") blast
  obtain out2 h2 where
    run2: "parseJSDoc_heap (parser_of marker_with_text) render
             ''Reads a value.\<newline>@bleno x'' (12::nat) ''onRead'' h1 = (out2, h2)"
    by (cases "parseJSDoc_heap (parser_of marker_with_text) render
             ''Reads a value.\<newline>@bleno x'' (12::nat) ''onRead'' h1") blast
  have "\<exists>r. parseJSDoc (parser_of marker_with_text) render ''Reads a value.\<newline>@bleno x''
          (12::nat) ''onRead'' = Inr (Some r)"
    by (rule parseJSDoc_returns)
      (simp_all add: parser_of_def marker_with_text_def plain_tag_def raises_def)
  then obtain r where
    r: "parseJSDoc (parser_of marker_with_text) render ''Reads a value.\<newline>@bleno x''
          (12::nat) ''onRead'' = Inr (Some r)"
    by blast
  from parseJSDoc_heap_refines[OF run1] have len: "length h1 = 1"
    by simp
  from repeated_calls_agree[OF run1 run2 refl refl refl] r len
  have "out1 = Inr (Some 0)" "out2 = Inr (Some 1)"
    "heap_read h1 0 = Some (Decorated r)" "heap_read h2 0 = Some (Decorated r)"
    "heap_read h2 1 = Some (Decorated r)"
    by simp_all
  with run1 run2 show ?thesis by auto
qed

end
